theory Spec2Isabelle
  imports Complex_Main "HOL-Library.Word"
begin

section \<open>The chain switcher (chainSwitcher/main.go)\<close>

text \<open>
  A \<open>float64\<close> read from JSON is finite, and the only operation the switcher applies
  to it is the comparison \<open>>\<close>; a finite float is modelled by the real number it
  denotes, on which \<open>>\<close> agrees with the comparison of the floats.
\<close>

record ChainRecord =
  DispatchHashrate :: real
  DispatchableHashrate :: real

text \<open>
  \<open>ChainDispatchRecord.Coins\<close> is a Go map. The loop of \<open>updateCurrentChain\<close> ranges over
  it in an order the runtime chooses, so the map is modelled by the list of its entries in
  the order in which this pass visits them.
\<close>

type_synonym ChainDispatchRecord = "(string \<times> ChainRecord) list"

text \<open>The fields of \<open>ChainSwitcherConfig\<close> that the decision loop reads.\<close>

record ChainSwitcherConfig =
  Algorithm :: string
  ChainDispatchAPI :: string
  ChainNameMap :: "string \<rightharpoonup> string"

text \<open>\<open>KafkaCommand\<close>, its fields named by their JSON tags.\<close>

record KafkaCommand =
  cmd_id :: "64 word"
  cmd_type :: string
  cmd_action :: string
  created_at :: string
  chain_name :: string

text \<open>A row handed to \<open>insertStmt.Exec\<close>: algorithm, prev_chain, curr_chain, api_result.\<close>

record AuditRow =
  algorithm :: string
  prev_chain :: string
  curr_chain :: string
  api_result :: string

text \<open>
  What the outside world answers during one pass: the outcome of \<open>http.Get\<close>,
  \<open>ioutil.ReadAll\<close> and \<open>json.Unmarshal\<close> (the body and, when it parses, the decoded
  record), whether \<open>insertStmt.Exec\<close> succeeds, and the formatted \<open>time.Now()\<close>.
\<close>

datatype DispatchFetch =
    HTTPRequestFailed
  | HTTPFetchBodyFailed
  | ParseResultFailed string
  | Fetched string ChainDispatchRecord

record PassEnv =
  dispatch :: DispatchFetch
  insertOK :: bool
  now :: string

text \<open>
  The package variables \<open>currentChainName\<close> and \<open>commandID\<close>, together with what the
  process has written so far: the messages given to \<open>controllerProducer.WriteMessages\<close>
  and the rows given to \<open>insertStmt.Exec\<close> that were stored.
\<close>

record Switcher =
  currentChainName :: string
  commandID :: "64 word"
  sent :: "KafkaCommand list"
  audit :: "AuditRow list"

text \<open>\<open>glog.Fatal\<close> logs and ends the process: \<open>Exited\<close> carries the state it ended in.\<close>

datatype Outcome = Exited Switcher | Running Switcher

text \<open>
  The \<open>for chain, record := range chainDispatchRecord.Coins\<close> loop, on the pair
  \<open>(largeHashrate, bestChain)\<close>.
\<close>

fun bestChainLoop ::
  "(string \<rightharpoonup> string) \<Rightarrow> ChainDispatchRecord \<Rightarrow> real \<times> string \<Rightarrow> real \<times> string" where
  "bestChainLoop m [] acc = acc"
| "bestChainLoop m ((chain, record) # rest) (largeHashrate, bestChain) =
     (if DispatchHashrate record > largeHashrate then
        (case m chain of
           Some chainName \<Rightarrow> bestChainLoop m rest (DispatchHashrate record, chainName)
         | None \<Rightarrow> bestChainLoop m rest (largeHashrate, bestChain))
      else bestChainLoop m rest (largeHashrate, bestChain))"

definition updateCurrentChain :: "ChainSwitcherConfig \<Rightarrow> PassEnv \<Rightarrow> Switcher \<Rightarrow> Outcome" where
  "updateCurrentChain configData env s =
     (let oldChainName = currentChainName s in
      case dispatch env of
        HTTPRequestFailed \<Rightarrow> Running s
      | HTTPFetchBodyFailed \<Rightarrow> Running s
      | ParseResultFailed body \<Rightarrow> Running s
      | Fetched body coins \<Rightarrow>
          (let bestChain = snd (bestChainLoop (ChainNameMap configData) coins (0, ''''));
               s1 = (if bestChain \<noteq> '''' then s\<lparr>currentChainName := bestChain\<rparr> else s)
           in if oldChainName \<noteq> currentChainName s1 then
                (if insertOK env then
                   Running (s1\<lparr>audit := audit s1 @
                     [\<lparr>algorithm = Algorithm configData, prev_chain = oldChainName,
                       curr_chain = currentChainName s1, api_result = body\<rparr>]\<rparr>)
                 else Exited s1)
              else Running s1))"

text \<open>One iteration of the \<open>for\<close> loop of \<open>updateChain\<close> (the sleep left out).\<close>

definition updateChainPass :: "ChainSwitcherConfig \<Rightarrow> PassEnv \<Rightarrow> Switcher \<Rightarrow> Outcome" where
  "updateChainPass configData env s =
     (case updateCurrentChain configData env s of
        Exited s' \<Rightarrow> Exited s'
      | Running s' \<Rightarrow>
          (if currentChainName s' \<noteq> '''' then
             (let s2 = s'\<lparr>commandID := commandID s' + 1\<rparr>;
                  command = \<lparr>cmd_id = commandID s2, cmd_type = ''sserver_cmd'',
                             cmd_action = ''auto_switch_chain'', created_at = now env,
                             chain_name = currentChainName s2\<rparr>
              in Running (s2\<lparr>sent := sent s2 @ [command]\<rparr>))
           else Running s'))"

text \<open>
  \<open>updateChain\<close> loops for ever; \<open>updateChain envs s\<close> runs one pass for each element of
  \<open>envs\<close>, in order, and stops early only where \<open>glog.Fatal\<close> ends the process.
\<close>

fun updateChain :: "ChainSwitcherConfig \<Rightarrow> PassEnv list \<Rightarrow> Switcher \<Rightarrow> Outcome" where
  "updateChain configData [] s = Running s"
| "updateChain configData (env # envs) s =
     (case updateChainPass configData env s of
        Exited s' \<Rightarrow> Exited s'
      | Running s' \<Rightarrow> updateChain configData envs s')"

text \<open>The state of the package variables when \<open>main\<close> calls \<open>updateChain\<close>.\<close>

definition initialSwitcher :: Switcher where
  "initialSwitcher = \<lparr>currentChainName = '''', commandID = 0, sent = [], audit = []\<rparr>"

fun stateOf :: "Outcome \<Rightarrow> Switcher" where
  "stateOf (Exited s) = s"
| "stateOf (Running s) = s"

text \<open>
  The chain a pass selects: the value of \<open>currentChainName\<close> when \<open>updateCurrentChain\<close>
  compares it with \<open>oldChainName\<close>. A pass detects a change when it differs from the
  current chain the pass started with.
\<close>

definition selected :: "ChainSwitcherConfig \<Rightarrow> PassEnv \<Rightarrow> Switcher \<Rightarrow> string" where
  "selected configData env s = currentChainName (stateOf (updateCurrentChain configData env s))"

text \<open>The command \<open>updateChain\<close> builds, and the row \<open>updateCurrentChain\<close> inserts.\<close>

definition switchCommand :: "64 word \<Rightarrow> string \<Rightarrow> string \<Rightarrow> KafkaCommand" where
  "switchCommand i t c = \<lparr>cmd_id = i, cmd_type = ''sserver_cmd'',
     cmd_action = ''auto_switch_chain'', created_at = t, chain_name = c\<rparr>"

definition auditRow :: "ChainSwitcherConfig \<Rightarrow> string \<Rightarrow> string \<Rightarrow> string \<Rightarrow> AuditRow" where
  "auditRow configData old new body =
     \<lparr>algorithm = Algorithm configData, prev_chain = old, curr_chain = new, api_result = body\<rparr>"

subsection \<open>Concrete inputs of the decision loop\<close>

text \<open>
  The spec's example: telemetry \<open>A:5, B:9\<close> and the rename map \<open>{"B": "chainB"}\<close>, in
  which \<open>A\<close> has no entry.
\<close>

definition renameB :: ChainSwitcherConfig where
  "renameB = \<lparr>Algorithm = ''algo'', ChainDispatchAPI = ''api'',
              ChainNameMap = [''B'' \<mapsto> ''chainB'']\<rparr>"

definition telemetryA5B9 :: ChainDispatchRecord where
  "telemetryA5B9 =
     [(''A'', \<lparr>DispatchHashrate = 5, DispatchableHashrate = 0\<rparr>),
      (''B'', \<lparr>DispatchHashrate = 9, DispatchableHashrate = 0\<rparr>)]"

definition telemetryB0 :: ChainDispatchRecord where
  "telemetryB0 = [(''B'', \<lparr>DispatchHashrate = 0, DispatchableHashrate = 0\<rparr>)]"

definition passAuditOK :: PassEnv where
  "passAuditOK = \<lparr>dispatch = Fetched ''body'' telemetryA5B9, insertOK = True, now = ''t''\<rparr>"

definition passAuditFails :: PassEnv where
  "passAuditFails = \<lparr>dispatch = Fetched ''body'' telemetryA5B9, insertOK = False, now = ''t''\<rparr>"

definition passB0 :: PassEnv where
  "passB0 = \<lparr>dispatch = Fetched ''body'' telemetryB0, insertOK = True, now = ''t''\<rparr>"

definition onChain :: "string \<Rightarrow> Switcher" where
  "onChain c = \<lparr>currentChainName = c, commandID = 0, sent = [], audit = []\<rparr>"

text \<open>
  A pass in which no chain of the rename map reports a positive hashrate (a pass whose
  fetch fails has no chain at all).
\<close>

definition noPositiveChain :: "ChainSwitcherConfig \<Rightarrow> PassEnv \<Rightarrow> bool" where
  "noPositiveChain configData env =
     (case dispatch env of
        Fetched body coins \<Rightarrow>
          list_all (\<lambda>(c, r). ChainNameMap configData c = None \<or> DispatchHashrate r \<le> 0) coins
      | _ \<Rightarrow> True)"

section \<open>The user chain manager (UserChainManager)\<close>

text \<open>
  Go's \<open>int32\<close> and \<open>int\<close> (64 bits wide) are words, read as two's complement by
  \<open>sint\<close>; the manager compares them and never does arithmetic on them.
\<close>

type_synonym int32 = "32 word"
type_synonym int64 = "64 word"

record UserChainInfo =
  userName :: string
  ChainName :: string
  SubPoolName :: string
  PUIDs :: "string \<rightharpoonup> int32"

definition NewUserChainInfo :: "string \<Rightarrow> UserChainInfo" where
  "NewUserChainInfo name =
     \<lparr>userName = name, ChainName = '''', SubPoolName = '''', PUIDs = Map.empty\<rparr>"

text \<open>The fields of \<open>ConfigData\<close> that the functions below read.\<close>

record ConfigData =
  StratumServerCaseInsensitive :: bool
  ZKSwitcherWatchDir :: string
  UserListAPI :: "string \<rightharpoonup> string"

text \<open>
  The manager's own state. \<open>userChainMap\<close> holds pointers in Go, and every function
  changes a record through the pointer it looked up under the lock; no pointer leaves the
  functions modelled here, so the map holds the records themselves and a change of a
  record is an update of the map at its key. The manager's \<open>configData\<close> and
  \<open>zookeeper\<close> are arguments of the functions.
\<close>

record UserChainManager =
  userChainMap :: "string \<rightharpoonup> UserChainInfo"
  lastPUID :: "string \<rightharpoonup> int32"
  lastRequestDate :: int64

definition NewUserChainManager :: UserChainManager where
  "NewUserChainManager = \<lparr>userChainMap = Map.empty, lastPUID = Map.empty, lastRequestDate = 0\<rparr>"

subsection \<open>JSON values and the two response shapes\<close>

text \<open>
  A JSON document as \<open>encoding/json\<close> scans it. A number literal without fraction and
  exponent is \<open>JInt\<close>; any other number literal is \<open>JNum\<close>, carrying its text. A body
  that is not a JSON document is \<open>NotJSON\<close>.
\<close>

datatype json =
    JNull
  | JBool bool
  | JInt int
  | JNum string
  | JStr string
  | JArr "json list"
  | JObj "(string \<times> json) list"

datatype Body = NotJSON string | JSON json

record UserIDMapResponse =
  ErrNo :: int64
  ErrMsg :: string
  Data :: "(string \<times> int32) list"

record UserIDMapEmptyResponse =
  EmptyErrNo :: int64
  EmptyErrMsg :: string
  EmptyData :: "json list"

text \<open>
  \<open>json.Unmarshal\<close> into the two response structs, as far as it decides whether it
  returns an error and what the struct then holds. A key of the document matches a field
  when it equals the field's tag, letter case ignored (ASCII letters here); other keys are
  skipped; a repeated key is decoded again, so its last value stands. \<open>null\<close> leaves the
  field as it is. An integer field takes an integer literal within its range, a string
  field a string. \<open>Data map[string]int32\<close> takes an object whose values are integer
  literals within \<open>int32\<close> (or \<open>null\<close>, stored as \<open>0\<close>); \<open>Data []interface{}\<close> takes any
  array. Anything else is an error, and so is a top-level value that is neither an object
  nor \<open>null\<close>. The decoded map is the list of its entries, distinct in their keys, in the
  order in which the loop of \<open>FetchUserIDList\<close> will visit them.
\<close>

definition toLowerByte :: "char \<Rightarrow> char" where
  "toLowerByte c =
     (let n = (of_char c :: nat) in if 65 \<le> n \<and> n \<le> 90 then char_of (n + 32) else c)"

definition ToLower :: "string \<Rightarrow> string" where
  "ToLower s = map toLowerByte s"

definition keyIs :: "string \<Rightarrow> string \<Rightarrow> bool" where
  "keyIs tag key = (ToLower key = ToLower tag)"

definition inInt32 :: "int \<Rightarrow> bool" where
  "inInt32 n = (- (2 ^ 31) \<le> n \<and> n < 2 ^ 31)"

definition inInt64 :: "int \<Rightarrow> bool" where
  "inInt64 n = (- (2 ^ 63) \<le> n \<and> n < 2 ^ 63)"

fun mapSet :: "string \<Rightarrow> 'v \<Rightarrow> (string \<times> 'v) list \<Rightarrow> (string \<times> 'v) list" where
  "mapSet k v [] = [(k, v)]"
| "mapSet k v ((k', v') # rest) = (if k' = k then (k, v) # rest else (k', v') # mapSet k v rest)"

fun decodeIDMap :: "(string \<times> json) list \<Rightarrow> (string \<times> int32) list \<Rightarrow> (string \<times> int32) list option" where
  "decodeIDMap [] acc = Some acc"
| "decodeIDMap ((k, JInt n) # rest) acc =
     (if inInt32 n then decodeIDMap rest (mapSet k (word_of_int n) acc) else None)"
| "decodeIDMap ((k, JNull) # rest) acc = decodeIDMap rest (mapSet k 0 acc)"
| "decodeIDMap ((k, v) # rest) acc = None"

fun decodeInt :: "json \<Rightarrow> int64 \<Rightarrow> int64 option" where
  "decodeInt (JInt n) old = (if inInt64 n then Some (word_of_int n) else None)"
| "decodeInt JNull old = Some old"
| "decodeInt v old = None"

fun decodeString :: "json \<Rightarrow> string \<Rightarrow> string option" where
  "decodeString (JStr s) old = Some s"
| "decodeString JNull old = Some old"
| "decodeString v old = None"

fun decodeMapData :: "json \<Rightarrow> (string \<times> int32) list \<Rightarrow> (string \<times> int32) list option" where
  "decodeMapData (JObj entries) old = decodeIDMap entries old"
| "decodeMapData JNull old = Some []"
| "decodeMapData v old = None"

fun decodeArrayData :: "json \<Rightarrow> json list \<Rightarrow> json list option" where
  "decodeArrayData (JArr items) old = Some items"
| "decodeArrayData JNull old = Some []"
| "decodeArrayData v old = None"

fun decodeMapFields :: "(string \<times> json) list \<Rightarrow> UserIDMapResponse \<Rightarrow> UserIDMapResponse option" where
  "decodeMapFields [] r = Some r"
| "decodeMapFields ((key, v) # rest) r =
     (if keyIs ''err_no'' key then
        (case decodeInt v (ErrNo r) of
           None \<Rightarrow> None | Some n \<Rightarrow> decodeMapFields rest (r\<lparr>ErrNo := n\<rparr>))
      else if keyIs ''err_msg'' key then
        (case decodeString v (ErrMsg r) of
           None \<Rightarrow> None | Some s \<Rightarrow> decodeMapFields rest (r\<lparr>ErrMsg := s\<rparr>))
      else if keyIs ''data'' key then
        (case decodeMapData v (Data r) of
           None \<Rightarrow> None | Some d \<Rightarrow> decodeMapFields rest (r\<lparr>Data := d\<rparr>))
      else decodeMapFields rest r)"

fun decodeEmptyFields ::
  "(string \<times> json) list \<Rightarrow> UserIDMapEmptyResponse \<Rightarrow> UserIDMapEmptyResponse option" where
  "decodeEmptyFields [] r = Some r"
| "decodeEmptyFields ((key, v) # rest) r =
     (if keyIs ''err_no'' key then
        (case decodeInt v (EmptyErrNo r) of
           None \<Rightarrow> None | Some n \<Rightarrow> decodeEmptyFields rest (r\<lparr>EmptyErrNo := n\<rparr>))
      else if keyIs ''err_msg'' key then
        (case decodeString v (EmptyErrMsg r) of
           None \<Rightarrow> None | Some s \<Rightarrow> decodeEmptyFields rest (r\<lparr>EmptyErrMsg := s\<rparr>))
      else if keyIs ''data'' key then
        (case decodeArrayData v (EmptyData r) of
           None \<Rightarrow> None | Some d \<Rightarrow> decodeEmptyFields rest (r\<lparr>EmptyData := d\<rparr>))
      else decodeEmptyFields rest r)"

fun unmarshalUserIDMapResponse :: "Body \<Rightarrow> UserIDMapResponse option" where
  "unmarshalUserIDMapResponse (JSON (JObj members)) =
     decodeMapFields members \<lparr>ErrNo = 0, ErrMsg = '''', Data = []\<rparr>"
| "unmarshalUserIDMapResponse (JSON JNull) = Some \<lparr>ErrNo = 0, ErrMsg = '''', Data = []\<rparr>"
| "unmarshalUserIDMapResponse b = None"

fun unmarshalUserIDMapEmptyResponse :: "Body \<Rightarrow> UserIDMapEmptyResponse option" where
  "unmarshalUserIDMapEmptyResponse (JSON (JObj members)) =
     decodeEmptyFields members \<lparr>EmptyErrNo = 0, EmptyErrMsg = '''', EmptyData = []\<rparr>"
| "unmarshalUserIDMapEmptyResponse (JSON JNull) =
     Some \<lparr>EmptyErrNo = 0, EmptyErrMsg = '''', EmptyData = []\<rparr>"
| "unmarshalUserIDMapEmptyResponse b = None"

subsection \<open>The coordination store\<close>

text \<open>
  What \<open>json.Marshal(info)\<close> writes: the exported fields of \<open>UserChainInfo\<close> under their
  tags \<open>chain\<close>, \<open>subpool\<close> and \<open>puids\<close>. Marshalling this struct cannot fail, so the
  \<open>err != nil\<close> return after it is never taken.
\<close>

record InfoDocument =
  doc_chain :: string
  doc_subpool :: string
  doc_puids :: "string \<rightharpoonup> int32"

definition marshalInfo :: "UserChainInfo \<Rightarrow> InfoDocument" where
  "marshalInfo info =
     \<lparr>doc_chain = ChainName info, doc_subpool = SubPoolName info, doc_puids = PUIDs info\<rparr>"

text \<open>
  Modelled from the spec: the type \<open>Zookeeper\<close> and its methods \<open>Exists\<close>, \<open>Set\<close> and
  \<open>Create\<close> are not among the source files. The spec describes the coordination store
  as a key-value tree with versioned nodes supporting get, create, conditional set and
  exists; a write to a node needs the version last seen by an exists check. The errors of
  the store, the calls it can receive, and a node with its data and version:
\<close>

datatype ZKError = ErrConnection | ErrNoNode | ErrBadVersion | ErrNodeExists

datatype ZKCall =
    CallExists string
  | CallSet string InfoDocument int32
  | CallCreate string InfoDocument

record ZNode =
  zdata :: InfoDocument
  zversion :: int32

text \<open>
  Modelled from the spec: the store behind the missing type \<open>Zookeeper\<close>, a map from
  paths to nodes. \<open>zcalls\<close> records every call made to the store, in order;
  \<open>zfaults\<close> lists, for the calls to come, whether the call fails before it reaches the
  store (no entry: it does not).
\<close>

record Zookeeper =
  znodes :: "string \<rightharpoonup> ZNode"
  zfaults :: "bool list"
  zcalls :: "ZKCall list"

text \<open>
  Modelled from the spec: what every call to the missing \<open>Zookeeper\<close> does first. It is
  recorded, and it takes the next entry of \<open>zfaults\<close>.
\<close>

definition zkCall :: "Zookeeper \<Rightarrow> ZKCall \<Rightarrow> bool \<times> Zookeeper" where
  "zkCall zk call =
     ((case zfaults zk of [] \<Rightarrow> False | f # fs \<Rightarrow> f),
      zk\<lparr>zfaults := tl (zfaults zk), zcalls := zcalls zk @ [call]\<rparr>)"

text \<open>
  Modelled from the spec: the missing method \<open>Zookeeper.Exists\<close>, the spec's exists check:
  whether the path has a node, and the node's version.
\<close>

definition Exists :: "Zookeeper \<Rightarrow> string \<Rightarrow> (ZKError + bool \<times> int32) \<times> Zookeeper" where
  "Exists zk path =
     (case zkCall zk (CallExists path) of
        (fault, zk') \<Rightarrow>
          if fault then (Inl ErrConnection, zk')
          else (case znodes zk' path of
                  None \<Rightarrow> (Inr (False, 0), zk')
                | Some node \<Rightarrow> (Inr (True, zversion node), zk')))"

text \<open>
  Modelled from the spec: the missing method \<open>Zookeeper.Set\<close>, the spec's conditional set:
  it writes an existing node whose version is the one given, and raises the version.
\<close>

definition Set :: "Zookeeper \<Rightarrow> string \<Rightarrow> InfoDocument \<Rightarrow> int32 \<Rightarrow> ZKError option \<times> Zookeeper" where
  "Set zk path data version =
     (case zkCall zk (CallSet path data version) of
        (fault, zk') \<Rightarrow>
          if fault then (Some ErrConnection, zk')
          else (case znodes zk' path of
                  None \<Rightarrow> (Some ErrNoNode, zk')
                | Some node \<Rightarrow>
                    if zversion node \<noteq> version then (Some ErrBadVersion, zk')
                    else (None, zk'\<lparr>znodes := (znodes zk')(path \<mapsto>
                            \<lparr>zdata = data, zversion = zversion node + 1\<rparr>)\<rparr>)))"

text \<open>
  Modelled from the spec: the missing method \<open>Zookeeper.Create\<close>, the spec's create: it
  makes a node where the path has none.
\<close>

definition Create :: "Zookeeper \<Rightarrow> string \<Rightarrow> InfoDocument \<Rightarrow> ZKError option \<times> Zookeeper" where
  "Create zk path data =
     (case zkCall zk (CallCreate path data) of
        (fault, zk') \<Rightarrow>
          if fault then (Some ErrConnection, zk')
          else (case znodes zk' path of
                  Some node \<Rightarrow> (Some ErrNodeExists, zk')
                | None \<Rightarrow>
                    (None, zk'\<lparr>znodes := (znodes zk')(path \<mapsto> \<lparr>zdata = data, zversion = 0\<rparr>)\<rparr>)))"

subsection \<open>The manager's functions\<close>

text \<open>
  The functions modelled are those the statements below are about: \<open>WriteToZK\<close>,
  \<open>GetChain\<close>, \<open>RegularUserName\<close>, \<open>SetPUID\<close>, \<open>SetChain\<close>, \<open>SetSubPool\<close> and
  \<open>FetchUserIDList\<close>. Every record of \<open>userChainMap\<close> is made by \<open>NewUserChainInfo\<close>,
  so its \<open>PUIDs\<close> map is allocated.
\<close>

text \<open>The errors the functions return (\<open>errors.New\<close> with the message in the comment).\<close>

datatype error =
    ErrUserNotExists string  \<comment> \<open>User ... does not exists\<close>
  | ErrHTTPRequest  \<comment> \<open>HTTP Request Failed\<close>
  | ErrHTTPFetchBody  \<comment> \<open>HTTP Fetch Body Failed\<close>
  | ErrParseResult Body  \<comment> \<open>Parse Result Failed\<close>
  | ErrAPIReturned Body  \<comment> \<open>API Returned a Error\<close>
  | ErrZK ZKError

text \<open>
  \<open>WriteToZK\<close> holds the read lock and only reads the manager; it returns its error and
  the store as the calls left it.
\<close>

definition WriteToZK ::
  "ConfigData \<Rightarrow> UserChainManager \<Rightarrow> Zookeeper \<Rightarrow> string \<Rightarrow> error option \<times> Zookeeper" where
  "WriteToZK configData manager zk name =
     (case userChainMap manager name of
        None \<Rightarrow> (Some (ErrUserNotExists name), zk)
      | Some info \<Rightarrow>
          (let jsonBytes = marshalInfo info;
               zkPath = ZKSwitcherWatchDir configData @ name in
           case Exists zk zkPath of
             (Inl e, zk1) \<Rightarrow> (Some (ErrZK e), zk1)
           | (Inr (exists, version), zk1) \<Rightarrow>
               (case (if exists then Set zk1 zkPath jsonBytes version
                      else Create zk1 zkPath jsonBytes) of
                  (None, zk2) \<Rightarrow> (None, zk2)
                | (Some e, zk2) \<Rightarrow> (Some (ErrZK e), zk2))))"


text \<open>
  \<open>strings.LastIndex\<close> for a one-byte separator: the index of its last occurrence, or
  \<open>-1\<close>. \<open>strings.ToLower\<close> is modelled by \<open>ToLower\<close> above, which lowers the ASCII
  letters \<open>A\<close> to \<open>Z\<close> and leaves every other byte as it is; Go lowers the upper-case
  letters outside ASCII as well.
\<close>

definition LastIndex :: "string \<Rightarrow> char \<Rightarrow> int" where
  "LastIndex s c =
     (if c \<in> set s then int (length s) - 1 - int (length (takeWhile (\<lambda>x. x \<noteq> c) (rev s)))
      else - 1)"

definition RegularUserName :: "ConfigData \<Rightarrow> string \<Rightarrow> string" where
  "RegularUserName configData name =
     (let name1 = (if CHR ''_'' \<in> set name
                   then take (nat (LastIndex name (CHR ''_''))) name else name)
      in if StratumServerCaseInsensitive configData then ToLower name1 else name1)"

definition SetPUID :: "UserChainManager \<Rightarrow> string \<Rightarrow> string \<Rightarrow> int32 \<Rightarrow> UserChainManager" where
  "SetPUID manager name chain puid =
     (let info = (case userChainMap manager name of
                    None \<Rightarrow> NewUserChainInfo name | Some i \<Rightarrow> i);
          info1 = info\<lparr>PUIDs := (PUIDs info)(chain \<mapsto> puid)\<rparr>;
          info2 = (if length (ChainName info1) \<le> 0 then info1\<lparr>ChainName := chain\<rparr> else info1)
      in manager\<lparr>userChainMap := (userChainMap manager)(name \<mapsto> info2)\<rparr>)"

definition SetChain :: "UserChainManager \<Rightarrow> string \<Rightarrow> string \<Rightarrow> UserChainManager" where
  "SetChain manager name chain =
     (let info = (case userChainMap manager name of
                    None \<Rightarrow> NewUserChainInfo name | Some i \<Rightarrow> i)
      in manager\<lparr>userChainMap := (userChainMap manager)(name \<mapsto> info\<lparr>ChainName := chain\<rparr>)\<rparr>)"

definition SetSubPool :: "UserChainManager \<Rightarrow> string \<Rightarrow> string \<Rightarrow> UserChainManager" where
  "SetSubPool manager name subpool =
     (let info = (case userChainMap manager name of
                    None \<Rightarrow> NewUserChainInfo name | Some i \<Rightarrow> i)
      in manager\<lparr>userChainMap := (userChainMap manager)(name \<mapsto> info\<lparr>SubPoolName := subpool\<rparr>)\<rparr>)"

text \<open>
  What \<open>http.Get\<close> and \<open>ioutil.ReadAll\<close> give \<open>FetchUserIDList\<close>. The URL, with its
  \<open>last_id\<close> parameter, decides only what the registry answers, which is an input here.
\<close>

datatype HTTPResult = GetFailed | ReadAllFailed | GotBody Body

text \<open>
  One round of the loop over \<open>userIDMapResponse.Data\<close>, and the loop. An error of
  \<open>WriteToZK\<close> is logged and dropped. A key missing from \<open>lastPUID\<close> reads as \<open>0\<close>.
\<close>

definition lastPUIDOf :: "UserChainManager \<Rightarrow> string \<Rightarrow> int32" where
  "lastPUIDOf manager chain = (case lastPUID manager chain of None \<Rightarrow> 0 | Some l \<Rightarrow> l)"

definition fetchStep ::
  "ConfigData \<Rightarrow> string \<Rightarrow> bool \<Rightarrow> string \<times> int32 \<Rightarrow> UserChainManager \<times> Zookeeper \<Rightarrow>
   UserChainManager \<times> Zookeeper" where
  "fetchStep configData chain update entry st =
     (case (entry, st) of
        ((puname0, puid), (manager, zk)) \<Rightarrow>
          (let puname = RegularUserName configData puname0;
               m1 = SetPUID manager puname chain puid;
               m2 = (if sint (lastPUIDOf m1 chain) < sint puid
                     then m1\<lparr>lastPUID := (lastPUID m1)(chain \<mapsto> puid)\<rparr> else m1);
               zk1 = (if update then snd (WriteToZK configData m2 zk puname) else zk)
           in (m2, zk1)))"

fun fetchLoop ::
  "ConfigData \<Rightarrow> string \<Rightarrow> bool \<Rightarrow> (string \<times> int32) list \<Rightarrow> UserChainManager \<times> Zookeeper \<Rightarrow>
   UserChainManager \<times> Zookeeper" where
  "fetchLoop configData chain update [] st = st"
| "fetchLoop configData chain update (entry # rest) st =
     fetchLoop configData chain update rest (fetchStep configData chain update entry st)"

definition FetchUserIDList ::
  "ConfigData \<Rightarrow> string \<Rightarrow> bool \<Rightarrow> HTTPResult \<Rightarrow> UserChainManager \<times> Zookeeper \<Rightarrow>
   error option \<times> UserChainManager \<times> Zookeeper" where
  "FetchUserIDList configData chain update http st =
     (case st of (manager, zk) \<Rightarrow>
        (let m0 = (if lastPUID manager chain = None
                   then manager\<lparr>lastPUID := (lastPUID manager)(chain \<mapsto> 0)\<rparr> else manager)
         in case http of
              GetFailed \<Rightarrow> (Some ErrHTTPRequest, m0, zk)
            | ReadAllFailed \<Rightarrow> (Some ErrHTTPFetchBody, m0, zk)
            | GotBody body \<Rightarrow>
                (case unmarshalUserIDMapResponse body of
                   None \<Rightarrow>
                     (case unmarshalUserIDMapEmptyResponse body of
                        None \<Rightarrow> (Some (ErrParseResult body), m0, zk)
                      | Some userIDMapEmptyResponse \<Rightarrow> (None, m0, zk))
                 | Some userIDMapResponse \<Rightarrow>
                     if ErrNo userIDMapResponse \<noteq> 0 then (Some (ErrAPIReturned body), m0, zk)
                     else (case fetchLoop configData chain update (Data userIDMapResponse) (m0, zk) of
                             (m', zk') \<Rightarrow> (None, m', zk')))))"

subsection \<open>Notions used by the statements about the manager\<close>

text \<open>The first step of \<open>RegularUserName\<close>: the cut at the last underscore.\<close>

definition stripPostfix :: "string \<Rightarrow> string" where
  "stripPostfix name =
     (if CHR ''_'' \<in> set name then take (nat (LastIndex name (CHR ''_''))) name else name)"

text \<open>\<open>manager.userChainMap[name].PUIDs[chain]\<close>, where both keys are present.\<close>

definition puidOf :: "UserChainManager \<Rightarrow> string \<Rightarrow> string \<Rightarrow> int32 option" where
  "puidOf manager name chain =
     (case userChainMap manager name of None \<Rightarrow> None | Some info \<Rightarrow> PUIDs info chain)"

text \<open>
  The local assignment calls, as data: a sequence of them is applied with \<open>foldl\<close>, and
  \<open>callName\<close> is the user a call is about.
\<close>

datatype ManagerCall =
    CallSetPUID string string int32
  | CallSetChain string string
  | CallSetSubPool string string

fun callName :: "ManagerCall \<Rightarrow> string" where
  "callName (CallSetPUID name chain puid) = name"
| "callName (CallSetChain name chain) = name"
| "callName (CallSetSubPool name subpool) = name"

fun applyCall :: "UserChainManager \<Rightarrow> ManagerCall \<Rightarrow> UserChainManager" where
  "applyCall manager (CallSetPUID name chain puid) = SetPUID manager name chain puid"
| "applyCall manager (CallSetChain name chain) = SetChain manager name chain"
| "applyCall manager (CallSetSubPool name subpool) = SetSubPool manager name subpool"

subsection \<open>Concrete inputs of the manager\<close>


definition caseSensitive :: ConfigData where
  "caseSensitive = \<lparr>StratumServerCaseInsensitive = False, ZKSwitcherWatchDir = ''/switcher/'',
     UserListAPI = Map.empty\<rparr>"

definition emptyStore :: Zookeeper where
  "emptyStore = \<lparr>znodes = Map.empty, zfaults = [], zcalls = []\<rparr>"

text \<open>
  The cursor step at the head of \<open>FetchUserIDList\<close>: a chain without a \<open>lastPUID\<close>
  gets \<open>0\<close>.
\<close>

definition initCursor :: "UserChainManager \<Rightarrow> string \<Rightarrow> UserChainManager" where
  "initCursor manager chain =
     (if lastPUID manager chain = None
      then manager\<lparr>lastPUID := (lastPUID manager)(chain \<mapsto> 0)\<rparr> else manager)"

text \<open>
  The ids one call of \<open>FetchUserIDList\<close> applies to a user, in the order of the loop:
  those of the entries of a keyed response without error whose name normalizes to the
  user.
\<close>

definition appliedIDs :: "ConfigData \<Rightarrow> HTTPResult \<Rightarrow> string \<Rightarrow> int32 list" where
  "appliedIDs configData http name =
     (case http of
        GotBody body \<Rightarrow>
          (case unmarshalUserIDMapResponse body of
             Some r \<Rightarrow>
               if ErrNo r \<noteq> 0 then []
               else map snd (filter (\<lambda>(puname, puid). RegularUserName configData puname = name) (Data r))
           | None \<Rightarrow> [])
      | _ \<Rightarrow> [])"

text \<open>
  Registry bodies: the empty-sequence shape, the same with a non-zero \<open>err_no\<close>, a keyed
  body with a non-zero \<open>err_no\<close>, and a keyed body that gives \<open>alice\<close> the id \<open>n\<close>.
\<close>

definition emptySequenceBody :: Body where
  "emptySequenceBody =
     JSON (JObj [(''err_no'', JInt 0), (''err_msg'', JStr ''''), (''data'', JArr [])])"

definition failedEmptyBody :: Body where
  "failedEmptyBody =
     JSON (JObj [(''err_no'', JInt 1), (''err_msg'', JStr ''fail''), (''data'', JArr [])])"

definition failedKeyedBody :: Body where
  "failedKeyedBody =
     JSON (JObj [(''err_no'', JInt 1), (''err_msg'', JStr ''fail''),
                 (''data'', JObj [(''alice'', JInt 10)])])"

definition keyedBody :: "int \<Rightarrow> Body" where
  "keyedBody n =
     JSON (JObj [(''err_no'', JInt 0), (''err_msg'', JStr ''''),
                 (''data'', JObj [(''alice'', JInt n)])])"

text \<open>A new manager after one call that gave \<open>alice\<close> the id \<open>7\<close>, or \<open>10\<close>, on \<open>btc\<close>.\<close>

definition after7 :: UserChainManager where
  "after7 = fst (snd (FetchUserIDList caseSensitive ''btc'' False (GotBody (keyedBody 7))
                  (NewUserChainManager, emptyStore)))"

definition after10 :: UserChainManager where
  "after10 = fst (snd (FetchUserIDList caseSensitive ''btc'' False (GotBody (keyedBody 10))
                   (NewUserChainManager, emptyStore)))"

section \<open>Properties of the chain switcher\<close>

subsection \<open>The selection loop\<close>

lemma bestChainLoop_unchanged:
  "\<forall>(c, r) \<in> set coins. c \<in> dom m \<longrightarrow> DispatchHashrate r \<le> l \<Longrightarrow>
   bestChainLoop m coins (l, b) = (l, b)"
  by (induction coins) (auto split: option.splits)

lemma bestChainLoop_origin:
  "bestChainLoop m coins (l, b) = (l', b') \<Longrightarrow>
   (l' = l \<and> b' = b) \<or>
   (\<exists>(c, r) \<in> set coins. m c = Some b' \<and> DispatchHashrate r = l' \<and> l < l')"
proof (induction coins arbitrary: l b)
  case Nil
  then show ?case by simp
next
  case (Cons x coins)
  obtain c r where x: "x = (c, r)" by (cases x)
  show ?case
  proof (cases "DispatchHashrate r > l \<and> m c \<noteq> None")
    case True
    then obtain n where n: "m c = Some n" by auto
    from True n Cons.prems x
    have "bestChainLoop m coins (DispatchHashrate r, n) = (l', b')" by simp
    from Cons.IH [OF this] show ?thesis using True n x by fastforce
  next
    case False
    with Cons.prems x have "bestChainLoop m coins (l, b) = (l', b')"
      by (auto split: option.splits if_splits)
    from Cons.IH [OF this] show ?thesis by auto
  qed
qed

text \<open>
  Among the entries with a rename entry, the first one visited that reaches the largest
  hashrate wins, provided that hashrate is above the accumulator's starting value.
\<close>

lemma bestChainLoop_first_max:
  assumes "m c = Some n" and "l < DispatchHashrate r"
    and "\<forall>(c', r') \<in> set pre. c' \<in> dom m \<longrightarrow> DispatchHashrate r' < DispatchHashrate r"
    and "\<forall>(c', r') \<in> set post. c' \<in> dom m \<longrightarrow> DispatchHashrate r' \<le> DispatchHashrate r"
  shows "bestChainLoop m (pre @ (c, r) # post) (l, b) = (DispatchHashrate r, n)"
  using assms
proof (induction pre arbitrary: l b)
  case Nil
  then show ?case by (simp add: bestChainLoop_unchanged)
next
  case (Cons x pre)
  obtain c' r' where x: "x = (c', r')" by (cases x)
  show ?case
  proof (cases "DispatchHashrate r' > l \<and> m c' \<noteq> None")
    case True
    then obtain n' where n': "m c' = Some n'" by auto
    have lt: "DispatchHashrate r' < DispatchHashrate r" using Cons.prems(3) x n' by auto
    have "bestChainLoop m (pre @ (c, r) # post) (DispatchHashrate r', n') = (DispatchHashrate r, n)"
      using Cons.IH [OF Cons.prems(1) lt _ Cons.prems(4)] Cons.prems(3) by simp
    then show ?thesis using True n' x by simp
  next
    case False
    have "bestChainLoop m (pre @ (c, r) # post) (l, b) = (DispatchHashrate r, n)"
      using Cons.IH [OF Cons.prems(1) Cons.prems(2) _ Cons.prems(4)] Cons.prems(3) by simp
    then show ?thesis using False x by (auto split: option.splits)
  qed
qed

lemma bestChainLoop_strict_max:
  assumes "(c, r) \<in> set coins" and "m c = Some n" and "l < DispatchHashrate r"
    and "\<forall>(c', r') \<in> set coins. (c', r') \<noteq> (c, r) \<longrightarrow> c' \<in> dom m \<longrightarrow>
           DispatchHashrate r' < DispatchHashrate r"
  shows "bestChainLoop m coins (l, b) = (DispatchHashrate r, n)"
proof -
  from assms(1) obtain pre post where sp: "coins = pre @ (c, r) # post" "(c, r) \<notin> set pre"
    by (auto dest: split_list_first)
  have a: "\<forall>(c', r') \<in> set pre. c' \<in> dom m \<longrightarrow> DispatchHashrate r' < DispatchHashrate r"
    using assms(4) sp by auto
  have b: "\<forall>(c', r') \<in> set post. c' \<in> dom m \<longrightarrow> DispatchHashrate r' \<le> DispatchHashrate r"
    using assms(4) sp by force
  show ?thesis unfolding sp(1) by (rule bestChainLoop_first_max [OF assms(2) assms(3) a b])
qed

subsection \<open>One pass\<close>

lemma selected_Fetched:
  "dispatch env = Fetched body coins \<Longrightarrow>
   selected cfg env s =
     (let b = snd (bestChainLoop (ChainNameMap cfg) coins (0, ''''))
      in if b \<noteq> '''' then b else currentChainName s)"
  by (simp add: selected_def updateCurrentChain_def Let_def)

lemma updateCurrentChain_Fetched:
  "dispatch env = Fetched body coins \<Longrightarrow>
   updateCurrentChain cfg env s =
     (if selected cfg env s = currentChainName s then Running s
      else if insertOK env then
        Running (s\<lparr>currentChainName := selected cfg env s,
                   audit := audit s @ [auditRow cfg (currentChainName s) (selected cfg env s) body]\<rparr>)
      else Exited (s\<lparr>currentChainName := selected cfg env s\<rparr>))"
  apply (simp add: selected_Fetched)
  apply (simp add: updateCurrentChain_def Let_def auditRow_def)
  done

lemma updateCurrentChain_not_Fetched:
  "dispatch env = HTTPRequestFailed \<or> dispatch env = HTTPFetchBodyFailed \<or>
   dispatch env = ParseResultFailed body \<Longrightarrow> updateCurrentChain cfg env s = Running s"
  by (auto simp: updateCurrentChain_def)

lemma selected_not_Fetched:
  "dispatch env = HTTPRequestFailed \<or> dispatch env = HTTPFetchBodyFailed \<or>
   dispatch env = ParseResultFailed body \<Longrightarrow> selected cfg env s = currentChainName s"
  by (simp add: selected_def updateCurrentChain_not_Fetched)

lemma selected_nonempty:
  assumes "selected cfg env s \<noteq> currentChainName s"
  shows "selected cfg env s \<noteq> ''''"
proof (cases "dispatch env")
  case (Fetched body coins)
  then show ?thesis using assms
    by (simp add: selected_Fetched [OF Fetched] Let_def split: if_splits)
next
  case HTTPRequestFailed
  then show ?thesis using assms selected_not_Fetched [of env _ cfg s] by simp
next
  case HTTPFetchBodyFailed
  then show ?thesis using assms selected_not_Fetched [of env _ cfg s] by simp
next
  case (ParseResultFailed body)
  then show ?thesis using assms selected_not_Fetched [of env body cfg s] by simp
qed

lemma selected_changed_Fetched:
  assumes "selected cfg env s \<noteq> currentChainName s"
  obtains body coins where "dispatch env = Fetched body coins"
  using assms selected_not_Fetched [of env _ cfg s] by (cases "dispatch env") auto

lemma selected_unchanged_Running:
  assumes "selected cfg env s = currentChainName s"
  shows "updateCurrentChain cfg env s = Running s"
proof (cases "dispatch env")
  case (Fetched body coins)
  then show ?thesis using assms by (simp add: updateCurrentChain_Fetched)
qed (simp_all add: updateCurrentChain_def)

lemma updateChainPass_unchanged:
  assumes "selected cfg env s = currentChainName s"
  shows "updateChainPass cfg env s =
     (if currentChainName s = '''' then Running s
      else Running (s\<lparr>commandID := commandID s + 1,
             sent := sent s @ [switchCommand (commandID s + 1) (now env) (currentChainName s)]\<rparr>))"
  by (simp add: updateChainPass_def selected_unchanged_Running [OF assms] switchCommand_def)

lemma updateChainPass_changed:
  assumes "dispatch env = Fetched body coins"
    and "selected cfg env s \<noteq> currentChainName s"
  shows "updateChainPass cfg env s =
     (if insertOK env then
        Running (s\<lparr>currentChainName := selected cfg env s,
                   commandID := commandID s + 1,
                   sent := sent s @ [switchCommand (commandID s + 1) (now env) (selected cfg env s)],
                   audit := audit s @
                     [auditRow cfg (currentChainName s) (selected cfg env s) body]\<rparr>)
      else Exited (s\<lparr>currentChainName := selected cfg env s\<rparr>))"
proof (cases "insertOK env")
  case True
  have ne: "selected cfg env s \<noteq> ''''" using assms(2) by (rule selected_nonempty)
  have u: "updateCurrentChain cfg env s =
      Running (s\<lparr>currentChainName := selected cfg env s,
                 audit := audit s @
                   [auditRow cfg (currentChainName s) (selected cfg env s) body]\<rparr>)"
    using assms True by (simp add: updateCurrentChain_Fetched)
  show ?thesis using True ne
    by (simp add: updateChainPass_def u switchCommand_def)
next
  case False
  have u: "updateCurrentChain cfg env s = Exited (s\<lparr>currentChainName := selected cfg env s\<rparr>)"
    using assms False by (simp add: updateCurrentChain_Fetched)
  show ?thesis using False
    by (simp add: updateChainPass_def u)
qed

subsection \<open>The example inputs, evaluated\<close>

lemma bestChainLoop_A5B9:
  "bestChainLoop (ChainNameMap renameB) telemetryA5B9 (0, '''') = (9, ''chainB'')"
  by (simp add: renameB_def telemetryA5B9_def)

lemma bestChainLoop_B0:
  "bestChainLoop (ChainNameMap renameB) telemetryB0 (0, '''') = (0, '''')"
  by (simp add: renameB_def telemetryB0_def)

lemma selected_A5B9:
  "selected renameB passAuditOK s = ''chainB''"
  "selected renameB passAuditFails s = ''chainB''"
  by (simp_all add: selected_Fetched [of _ "''body''" telemetryA5B9]
        passAuditOK_def passAuditFails_def bestChainLoop_A5B9)

lemma selected_B0: "selected renameB passB0 s = currentChainName s"
  by (simp add: selected_Fetched [of _ "''body''" telemetryB0] passB0_def bestChainLoop_B0)

lemma updateChainPass_onChainB:
  "updateChainPass renameB passAuditOK (onChain ''chainB'') =
     Running \<lparr>currentChainName = ''chainB'', commandID = 1,
       sent = [switchCommand 1 ''t'' ''chainB''], audit = []\<rparr>"
proof -
  have u: "selected renameB passAuditOK (onChain ''chainB'') = currentChainName (onChain ''chainB'')"
    by (simp add: selected_A5B9 onChain_def)
  show ?thesis
    by (simp add: updateChainPass_unchanged [OF u]) (simp add: onChain_def passAuditOK_def)
qed

lemma updateChainPass_A_to_B:
  "updateChainPass renameB passAuditOK (onChain ''chainA'') =
     Running \<lparr>currentChainName = ''chainB'', commandID = 1,
       sent = [switchCommand 1 ''t'' ''chainB''],
       audit = [auditRow renameB ''chainA'' ''chainB'' ''body'']\<rparr>"
proof -
  have f: "dispatch passAuditOK = Fetched ''body'' telemetryA5B9" by (simp add: passAuditOK_def)
  have u: "selected renameB passAuditOK (onChain ''chainA'') \<noteq> currentChainName (onChain ''chainA'')"
    by (simp add: selected_A5B9 onChain_def)
  show ?thesis
    by (simp add: updateChainPass_changed [OF f u] selected_A5B9)
       (simp add: onChain_def passAuditOK_def)
qed

lemma updateChainPass_A_to_B_fatal:
  "updateChainPass renameB passAuditFails (onChain ''chainA'') =
     Exited \<lparr>currentChainName = ''chainB'', commandID = 0, sent = [], audit = []\<rparr>"
proof -
  have f: "dispatch passAuditFails = Fetched ''body'' telemetryA5B9"
    by (simp add: passAuditFails_def)
  have u: "selected renameB passAuditFails (onChain ''chainA'') \<noteq> currentChainName (onChain ''chainA'')"
    by (simp add: selected_A5B9 onChain_def)
  show ?thesis
    by (simp add: updateChainPass_changed [OF f u] selected_A5B9)
       (simp add: onChain_def passAuditFails_def)
qed

subsection \<open>Passes without a positive hashrate\<close>

lemma noPositiveChain_selected:
  assumes "noPositiveChain cfg env"
  shows "selected cfg env s = currentChainName s"
proof (cases "dispatch env")
  case (Fetched body coins)
  have "\<forall>(c, r) \<in> set coins. c \<in> dom (ChainNameMap cfg) \<longrightarrow> DispatchHashrate r \<le> 0"
    using assms Fetched by (auto simp: noPositiveChain_def list_all_iff)
  then have "bestChainLoop (ChainNameMap cfg) coins (0, '''') = (0, '''')"
    by (rule bestChainLoop_unchanged)
  then show ?thesis by (simp add: selected_Fetched [OF Fetched])
next
  case HTTPRequestFailed
  then show ?thesis using selected_not_Fetched [of env _ cfg s] by simp
next
  case HTTPFetchBodyFailed
  then show ?thesis using selected_not_Fetched [of env _ cfg s] by simp
next
  case (ParseResultFailed body)
  then show ?thesis using selected_not_Fetched [of env body cfg s] by simp
qed

lemma updateChain_noPositive:
  "list_all (noPositiveChain cfg) envs \<Longrightarrow>
   \<exists>s'. updateChain cfg envs s = Running s' \<and> currentChainName s' = currentChainName s \<and>
        audit s' = audit s \<and> (currentChainName s = '''' \<longrightarrow> s' = s)"
proof (induction envs arbitrary: s)
  case Nil
  then show ?case by simp
next
  case (Cons env envs)
  have u: "selected cfg env s = currentChainName s"
    using Cons.prems by (simp add: noPositiveChain_selected)
  have "\<exists>s1. updateChainPass cfg env s = Running s1 \<and>
      currentChainName s1 = currentChainName s \<and> audit s1 = audit s \<and>
      (currentChainName s = '''' \<longrightarrow> s1 = s)"
    by (cases "currentChainName s = ''''") (simp_all add: updateChainPass_unchanged [OF u])
  then obtain s1 where s1: "updateChainPass cfg env s = Running s1"
    "currentChainName s1 = currentChainName s" "audit s1 = audit s"
    "currentChainName s = '''' \<longrightarrow> s1 = s"
    by blast
  from Cons.prems have "list_all (noPositiveChain cfg) envs" by simp
  from Cons.IH [OF this, of s1] s1 show ?case by auto
qed

section \<open>Claims about the chain switcher\<close>

text \<open>
  Claim C1, as the code has it. A pass that does not end the process publishes one switch
  command, carrying the chain it selected, whenever that chain is not the empty string:
  \<open>updateChain\<close> tests \<open>currentChainName != ""\<close>, not whether the chain changed, so the
  command is sent again on every pass. Nothing is published only while the selected chain
  is empty. A pass that detects a change publishes exactly one command, carrying the new
  chain.
\<close>

theorem updateChainPass_publishes:
  assumes "updateChainPass cfg env s = Running s'"
  shows "currentChainName s' = selected cfg env s \<and>
         sent s' = sent s @
           (if selected cfg env s = '''' then []
            else [switchCommand (commandID s + 1) (now env) (selected cfg env s)]) \<and>
         (selected cfg env s \<noteq> currentChainName s \<longrightarrow>
            sent s' = sent s @ [switchCommand (commandID s + 1) (now env) (selected cfg env s)])"
proof (cases "selected cfg env s = currentChainName s")
  case True
  show ?thesis using assms True
    by (auto simp: updateChainPass_unchanged [OF True] split: if_splits)
next
  case False
  obtain body coins where f: "dispatch env = Fetched body coins"
    using False by (rule selected_changed_Fetched)
  have ne: "selected cfg env s \<noteq> ''''" using False by (rule selected_nonempty)
  show ?thesis using assms ne updateChainPass_changed [OF f False]
    by (auto split: if_splits)
qed

text \<open>
  The theorem at the spec's example, the current chain being \<open>chainA\<close>: the pass selects
  \<open>chainB\<close> and publishes one command that carries it.
\<close>

theorem updateChainPass_publishes_witness:
  "updateChainPass renameB passAuditOK (onChain ''chainA'') =
     Running \<lparr>currentChainName = ''chainB'', commandID = 1,
       sent = [switchCommand 1 ''t'' ''chainB''],
       audit = [auditRow renameB ''chainA'' ''chainB'' ''body'']\<rparr> \<and>
   selected renameB passAuditOK (onChain ''chainA'') = ''chainB'' \<and>
   sent \<lparr>currentChainName = ''chainB'', commandID = 1,
       sent = [switchCommand 1 ''t'' ''chainB''],
       audit = [auditRow renameB ''chainA'' ''chainB'' ''body'']\<rparr> =
     sent (onChain ''chainA'') @
       [switchCommand (commandID (onChain ''chainA'') + 1) (now passAuditOK) ''chainB'']"
  using updateChainPass_publishes [OF updateChainPass_A_to_B]
  by (simp add: updateChainPass_A_to_B selected_A5B9)

text \<open>
  Claim C1 as stated fails. The current chain is already \<open>chainB\<close>, the pass selects
  \<open>chainB\<close> again, nothing had been sent before, and the pass publishes a command.
\<close>

theorem resend_without_change:
  "selected renameB passAuditOK (onChain ''chainB'') = currentChainName (onChain ''chainB'') \<and>
   sent (onChain ''chainB'') = [] \<and>
   sent (stateOf (updateChainPass renameB passAuditOK (onChain ''chainB''))) =
     [\<lparr>cmd_id = 1, cmd_type = ''sserver_cmd'', cmd_action = ''auto_switch_chain'',
       created_at = ''t'', chain_name = ''chainB''\<rparr>]"
  by (simp add: updateChainPass_onChainB selected_A5B9) (simp add: onChain_def switchCommand_def)

text \<open>
  Claim C2, as the code has it. When a pass detects a change, \<open>updateCurrentChain\<close> first
  appends the audit row. If the append succeeds the pass goes on and publishes the command
  that carries the new chain. If it fails, \<open>glog.Fatal\<close> ends the process inside
  \<open>updateCurrentChain\<close>, before \<open>updateChain\<close> reaches its publish step: nothing is
  published for that pass.
\<close>

theorem publish_after_audit:
  assumes "dispatch env = Fetched body coins"
    and "selected cfg env s \<noteq> currentChainName s"
  shows "updateChainPass cfg env s =
     (if insertOK env then
        Running (s\<lparr>currentChainName := selected cfg env s,
                   commandID := commandID s + 1,
                   sent := sent s @ [switchCommand (commandID s + 1) (now env) (selected cfg env s)],
                   audit := audit s @
                     [auditRow cfg (currentChainName s) (selected cfg env s) body]\<rparr>)
      else Exited (s\<lparr>currentChainName := selected cfg env s\<rparr>))"
  using assms by (rule updateChainPass_changed)

text \<open>
  The spec's example with the audit insert failing: the change from \<open>chainA\<close> to
  \<open>chainB\<close> is detected and the process ends.
\<close>

theorem publish_after_audit_witness:
  "dispatch passAuditFails = Fetched ''body'' telemetryA5B9 \<and>
   selected renameB passAuditFails (onChain ''chainA'') \<noteq> currentChainName (onChain ''chainA'') \<and>
   updateChainPass renameB passAuditFails (onChain ''chainA'') =
     Exited ((onChain ''chainA'')\<lparr>currentChainName := ''chainB''\<rparr>)"
proof -
  have f: "dispatch passAuditFails = Fetched ''body'' telemetryA5B9"
    by (simp add: passAuditFails_def)
  have u: "selected renameB passAuditFails (onChain ''chainA'') \<noteq> currentChainName (onChain ''chainA'')"
    by (simp add: selected_A5B9 onChain_def)
  have n: "\<not> insertOK passAuditFails" by (simp add: passAuditFails_def)
  show ?thesis using publish_after_audit [OF f u] f u n by (simp add: selected_A5B9)
qed

text \<open>
  Claim C2 as stated fails. The pass detects the change from \<open>chainA\<close> to \<open>chainB\<close>, the
  audit insert fails, and the process ends with nothing sent.
\<close>

theorem audit_failure_blocks_publish:
  "selected renameB passAuditFails (onChain ''chainA'') \<noteq> currentChainName (onChain ''chainA'') \<and>
   \<not> insertOK passAuditFails \<and>
   updateChainPass renameB passAuditFails (onChain ''chainA'') =
     Exited \<lparr>currentChainName = ''chainB'', commandID = 0, sent = [], audit = []\<rparr>"
  by (simp add: updateChainPass_A_to_B_fatal selected_A5B9)
     (simp add: onChain_def passAuditFails_def)

text \<open>
  Claim C3, as the code has it. A pass whose telemetry was fetched selects the renamed
  chain of the entry that has a rename entry, a hashrate above zero and a hashrate
  strictly above that of every other entry with a rename entry, provided the renamed name
  is not empty. Whatever it selects, other than the chain it already had, is the renamed
  name of an entry of the telemetry with a positive hashrate, so a chain absent from the
  rename map is never selected. If no entry with a rename entry has a positive hashrate,
  the current chain is kept.
\<close>

theorem select_best_positive:
  assumes "dispatch env = Fetched body coins"
  shows "(\<forall>c r n. (c, r) \<in> set coins \<and> ChainNameMap cfg c = Some n \<and> n \<noteq> '''' \<and>
            0 < DispatchHashrate r \<and>
            (\<forall>(c', r') \<in> set coins. (c', r') \<noteq> (c, r) \<longrightarrow> c' \<in> dom (ChainNameMap cfg) \<longrightarrow>
               DispatchHashrate r' < DispatchHashrate r)
          \<longrightarrow> selected cfg env s = n) \<and>
         (selected cfg env s = currentChainName s \<or>
          (\<exists>(c, r) \<in> set coins. ChainNameMap cfg c = Some (selected cfg env s) \<and>
             0 < DispatchHashrate r)) \<and>
         ((\<forall>(c, r) \<in> set coins. c \<in> dom (ChainNameMap cfg) \<longrightarrow> DispatchHashrate r \<le> 0)
          \<longrightarrow> selected cfg env s = currentChainName s)"
proof (intro conjI allI impI)
  fix c r n
  assume a: "(c, r) \<in> set coins \<and> ChainNameMap cfg c = Some n \<and> n \<noteq> '''' \<and>
            0 < DispatchHashrate r \<and>
            (\<forall>(c', r') \<in> set coins. (c', r') \<noteq> (c, r) \<longrightarrow> c' \<in> dom (ChainNameMap cfg) \<longrightarrow>
               DispatchHashrate r' < DispatchHashrate r)"
  have "bestChainLoop (ChainNameMap cfg) coins (0, '''') = (DispatchHashrate r, n)"
    by (rule bestChainLoop_strict_max) (use a in auto)
  then show "selected cfg env s = n" using a by (simp add: selected_Fetched [OF assms])
next
  obtain l b where lb: "bestChainLoop (ChainNameMap cfg) coins (0, '''') = (l, b)"
    by (cases "bestChainLoop (ChainNameMap cfg) coins (0, '''')")
  from bestChainLoop_origin [OF lb]
  show "selected cfg env s = currentChainName s \<or>
          (\<exists>(c, r) \<in> set coins. ChainNameMap cfg c = Some (selected cfg env s) \<and>
             0 < DispatchHashrate r)"
    using lb by (auto simp: selected_Fetched [OF assms])
next
  assume "\<forall>(c, r) \<in> set coins. c \<in> dom (ChainNameMap cfg) \<longrightarrow> DispatchHashrate r \<le> 0"
  then have "bestChainLoop (ChainNameMap cfg) coins (0, '''') = (0, '''')"
    by (rule bestChainLoop_unchanged)
  then show "selected cfg env s = currentChainName s"
    by (simp add: selected_Fetched [OF assms])
qed

text \<open>
  The spec's example, by the theorem: with telemetry \<open>A:5, B:9\<close> and \<open>A\<close> missing from
  the rename map the pass selects \<open>chainB\<close>; with \<open>B:0\<close> alone it keeps \<open>chainA\<close>.
\<close>

theorem select_best_positive_witness:
  "selected renameB passAuditOK (onChain ''chainA'') = ''chainB'' \<and>
   selected renameB passB0 (onChain ''chainA'') = ''chainA''"
proof -
  have f: "dispatch passAuditOK = Fetched ''body'' telemetryA5B9" by (simp add: passAuditOK_def)
  have g: "dispatch passB0 = Fetched ''body'' telemetryB0" by (simp add: passB0_def)
  have h: "(''B'', \<lparr>DispatchHashrate = 9, DispatchableHashrate = 0\<rparr>) \<in> set telemetryA5B9 \<and>
      ChainNameMap renameB ''B'' = Some ''chainB'' \<and> ''chainB'' \<noteq> '''' \<and>
      0 < DispatchHashrate \<lparr>DispatchHashrate = 9, DispatchableHashrate = 0\<rparr> \<and>
      (\<forall>(c', r') \<in> set telemetryA5B9.
         (c', r') \<noteq> (''B'', \<lparr>DispatchHashrate = 9, DispatchableHashrate = 0\<rparr>) \<longrightarrow>
         c' \<in> dom (ChainNameMap renameB) \<longrightarrow>
         DispatchHashrate r' < DispatchHashrate \<lparr>DispatchHashrate = 9, DispatchableHashrate = 0\<rparr>)"
    by (simp add: telemetryA5B9_def renameB_def)
  have k: "\<forall>(c, r) \<in> set telemetryB0. c \<in> dom (ChainNameMap renameB) \<longrightarrow> DispatchHashrate r \<le> 0"
    by (simp add: telemetryB0_def)
  have a: "selected renameB passAuditOK (onChain ''chainA'') = ''chainB''"
    using select_best_positive [OF f, of renameB "onChain ''chainA''"] h by blast
  have b: "selected renameB passB0 (onChain ''chainA'') = ''chainA''"
    using select_best_positive [OF g, of renameB "onChain ''chainA''"] k
    by (simp add: onChain_def)
  show ?thesis using a b by simp
qed

text \<open>
  Claim C3 as stated fails. \<open>B\<close> is the only chain of the telemetry, it has an entry in
  the rename map, so it has the largest hashrate among the chains with an entry; its
  hashrate is \<open>0\<close>, and the pass keeps \<open>chainA\<close> instead of selecting \<open>chainB\<close>.
\<close>

theorem zero_hashrate_not_selected:
  "telemetryB0 = [(''B'', \<lparr>DispatchHashrate = 0, DispatchableHashrate = 0\<rparr>)] \<and>
   ChainNameMap renameB ''B'' = Some ''chainB'' \<and>
   dispatch passB0 = Fetched ''body'' telemetryB0 \<and>
   selected renameB passB0 (onChain ''chainA'') = ''chainA''"
  by (simp add: selected_B0) (simp add: telemetryB0_def renameB_def passB0_def onChain_def)

text \<open>
  Claim C10. The loop starts from \<open>largeHashrate = 0\<close> and compares with \<open>>\<close>, so its
  result is either the untouched pair \<open>(0, "")\<close> or the renamed name of an entry whose
  hashrate is positive: a chain with a hashrate of zero or less is never the best chain.
  A pass in which no chain of the rename map has a positive hashrate keeps
  \<open>currentChainName\<close>. A pass after which \<open>currentChainName\<close> is still the empty
  string publishes nothing and changes nothing. Over any number of passes without a
  positive hashrate, while \<open>currentChainName\<close> is the empty string, no command is
  published and \<open>commandID\<close> does not move.
\<close>

theorem nonpositive_never_selected:
  "(bestChainLoop m coins (0, '''') = (0, '''') \<or>
    (\<exists>(c, r) \<in> set coins. m c = Some (snd (bestChainLoop m coins (0, ''''))) \<and>
        DispatchHashrate r = fst (bestChainLoop m coins (0, '''')) \<and> 0 < DispatchHashrate r)) \<and>
   (noPositiveChain cfg env \<longrightarrow> selected cfg env s = currentChainName s) \<and>
   (selected cfg env s = '''' \<longrightarrow> updateChainPass cfg env s = Running s) \<and>
   (list_all (noPositiveChain cfg) envs \<longrightarrow>
      (\<exists>s'. updateChain cfg envs s = Running s' \<and> currentChainName s' = currentChainName s \<and>
         (currentChainName s = '''' \<longrightarrow> sent s' = sent s \<and> commandID s' = commandID s)))"
proof (intro conjI impI)
  obtain l b where lb: "bestChainLoop m coins (0, '''') = (l, b)"
    by (cases "bestChainLoop m coins (0, '''')")
  from bestChainLoop_origin [OF lb]
  show "bestChainLoop m coins (0, '''') = (0, '''') \<or>
    (\<exists>(c, r) \<in> set coins. m c = Some (snd (bestChainLoop m coins (0, ''''))) \<and>
        DispatchHashrate r = fst (bestChainLoop m coins (0, '''')) \<and> 0 < DispatchHashrate r)"
    using lb by auto
next
  assume "noPositiveChain cfg env"
  then show "selected cfg env s = currentChainName s" by (rule noPositiveChain_selected)
next
  assume e: "selected cfg env s = ''''"
  have u: "selected cfg env s = currentChainName s"
    using e selected_nonempty [of cfg env s] by blast
  show "updateChainPass cfg env s = Running s"
    using e u by (simp add: updateChainPass_unchanged [OF u])
next
  assume "list_all (noPositiveChain cfg) envs"
  from updateChain_noPositive [OF this, of s]
  show "\<exists>s'. updateChain cfg envs s = Running s' \<and> currentChainName s' = currentChainName s \<and>
         (currentChainName s = '''' \<longrightarrow> sent s' = sent s \<and> commandID s' = commandID s)"
    by auto
qed

text \<open>
  Two passes that report \<open>B:0\<close>, from the initial state: the current chain stays empty
  and nothing is sent.
\<close>

theorem nonpositive_never_selected_witness:
  "noPositiveChain renameB passB0 \<and> list_all (noPositiveChain renameB) [passB0, passB0] \<and>
   currentChainName initialSwitcher = '''' \<and>
   selected renameB passB0 initialSwitcher = '''' \<and>
   updateChainPass renameB passB0 initialSwitcher = Running initialSwitcher \<and>
   (\<exists>s'. updateChain renameB [passB0, passB0] initialSwitcher = Running s' \<and>
      currentChainName s' = '''' \<and> sent s' = [] \<and> commandID s' = 0)"
proof -
  have n: "noPositiveChain renameB passB0"
    by (simp add: noPositiveChain_def passB0_def telemetryB0_def)
  then have l: "list_all (noPositiveChain renameB) [passB0, passB0]" by simp
  have i: "currentChainName initialSwitcher = ''''" "sent initialSwitcher = []"
    "commandID initialSwitcher = 0"
    by (simp_all add: initialSwitcher_def)
  show ?thesis
    using nonpositive_never_selected [of "ChainNameMap renameB" telemetryB0 renameB passB0
        initialSwitcher "[passB0, passB0]"] n l i
    by simp
qed

section \<open>Properties of the user chain manager\<close>

subsection \<open>User names\<close>

lemma RegularUserName_alt:
  "RegularUserName cfg name =
     (if StratumServerCaseInsensitive cfg then ToLower (stripPostfix name) else stripPostfix name)"
  by (simp add: RegularUserName_def stripPostfix_def Let_def)















lemma stripPostfix_examples:
  "stripPostfix ''a_b_c'' = ''a_b''" "stripPostfix ''a_b'' = ''a''"
  "stripPostfix ''Alice_btc'' = ''Alice''" "stripPostfix ''Alice'' = ''Alice''"
  "stripPostfix ''alice'' = ''alice''"
  by (simp_all add: stripPostfix_def LastIndex_def)


subsection \<open>Assignments\<close>

lemma SetPUID_user:
  "userChainMap (SetPUID m u chain puid) u =
     Some ((case userChainMap m u of None \<Rightarrow> NewUserChainInfo u | Some i \<Rightarrow> i)
        \<lparr>PUIDs := (PUIDs (case userChainMap m u of None \<Rightarrow> NewUserChainInfo u | Some i \<Rightarrow> i))
                    (chain \<mapsto> puid),
         ChainName := (if ChainName (case userChainMap m u of None \<Rightarrow> NewUserChainInfo u | Some i \<Rightarrow> i) = ''''
                       then chain
                       else ChainName (case userChainMap m u of None \<Rightarrow> NewUserChainInfo u | Some i \<Rightarrow> i))\<rparr>)"
  by (simp add: SetPUID_def Let_def)

lemma SetPUID_other: "u' \<noteq> u \<Longrightarrow> userChainMap (SetPUID m u chain puid) u' = userChainMap m u'"
  by (simp add: SetPUID_def Let_def)

lemma SetPUID_lastPUID: "lastPUID (SetPUID m u chain puid) = lastPUID m"
  by (simp add: SetPUID_def Let_def)

lemma puidOf_SetPUID:
  "puidOf (SetPUID m u chain puid) u' chain' =
     (if u' = u \<and> chain' = chain then Some puid else puidOf m u' chain')"
proof (cases "u' = u")
  case True
  then show ?thesis
    by (simp add: puidOf_def SetPUID_user NewUserChainInfo_def split: option.splits)
next
  case False
  then show ?thesis by (simp add: puidOf_def SetPUID_other)
qed


lemma applyCall_other: "callName c \<noteq> u \<Longrightarrow> userChainMap (applyCall m c) u = userChainMap m u"
  by (cases c) (simp_all add: SetPUID_def SetChain_def SetSubPool_def Let_def)

lemma foldl_applyCall_other:
  "u \<notin> callName ` set calls \<Longrightarrow> userChainMap (foldl applyCall m calls) u = userChainMap m u"
  by (induction calls arbitrary: m) (auto simp: applyCall_other)

subsection \<open>Fetching the id list\<close>

lemma keyIs_tags:
  "keyIs ''err_no'' ''err_no''" "\<not> keyIs ''err_no'' ''err_msg''" "\<not> keyIs ''err_no'' ''data''"
  "keyIs ''err_msg'' ''err_msg''" "\<not> keyIs ''err_msg'' ''data''" "keyIs ''data'' ''data''"
  by code_simp+

lemma unmarshal_emptySequenceBody:
  "unmarshalUserIDMapResponse emptySequenceBody = None"
  "unmarshalUserIDMapEmptyResponse emptySequenceBody =
     Some \<lparr>EmptyErrNo = 0, EmptyErrMsg = '''', EmptyData = []\<rparr>"
  by (simp_all add: emptySequenceBody_def keyIs_tags inInt64_def)

lemma unmarshal_failedEmptyBody:
  "unmarshalUserIDMapResponse failedEmptyBody = None"
  "unmarshalUserIDMapEmptyResponse failedEmptyBody =
     Some \<lparr>EmptyErrNo = 1, EmptyErrMsg = ''fail'', EmptyData = []\<rparr>"
  by (simp_all add: failedEmptyBody_def keyIs_tags inInt64_def)

lemma unmarshal_failedKeyedBody:
  "unmarshalUserIDMapResponse failedKeyedBody =
     Some \<lparr>ErrNo = 1, ErrMsg = ''fail'', Data = [(''alice'', 10)]\<rparr>"
  by (simp add: failedKeyedBody_def keyIs_tags inInt64_def inInt32_def)

lemma unmarshal_keyedBody:
  "inInt32 n \<Longrightarrow> unmarshalUserIDMapResponse (keyedBody n) =
     Some \<lparr>ErrNo = 0, ErrMsg = '''', Data = [(''alice'', word_of_int n)]\<rparr>"
  by (simp add: keyedBody_def keyIs_tags inInt64_def)

lemma initCursor_simps:
  "userChainMap (initCursor m chain) = userChainMap m"
  "lastPUIDOf (initCursor m chain) chain = lastPUIDOf m chain"
  "lastPUID (initCursor m chain) chain = Some (lastPUIDOf m chain)"
  "puidOf (initCursor m chain) u c = puidOf m u c"
  by (auto simp: initCursor_def lastPUIDOf_def puidOf_def split: option.splits)

lemma FetchUserIDList_cases:
  "FetchUserIDList cfg chain update http (m, zk) =
     (case http of
        GetFailed \<Rightarrow> (Some ErrHTTPRequest, initCursor m chain, zk)
      | ReadAllFailed \<Rightarrow> (Some ErrHTTPFetchBody, initCursor m chain, zk)
      | GotBody body \<Rightarrow>
          (case unmarshalUserIDMapResponse body of
             None \<Rightarrow>
               (case unmarshalUserIDMapEmptyResponse body of
                  None \<Rightarrow> (Some (ErrParseResult body), initCursor m chain, zk)
                | Some e \<Rightarrow> (None, initCursor m chain, zk))
           | Some r \<Rightarrow>
               if ErrNo r \<noteq> 0 then (Some (ErrAPIReturned body), initCursor m chain, zk)
               else (None, fetchLoop cfg chain update (Data r) (initCursor m chain, zk))))"
  by (simp add: FetchUserIDList_def initCursor_def Let_def split: HTTPResult.splits option.splits prod.splits)

lemma puidOf_lastPUID_update [simp]: "puidOf (m\<lparr>lastPUID := x\<rparr>) u c = puidOf m u c"
  by (simp add: puidOf_def)

lemma lastPUIDOf_SetPUID [simp]: "lastPUIDOf (SetPUID m u chain p) c = lastPUIDOf m c"
  by (simp add: lastPUIDOf_def SetPUID_lastPUID)

lemma fst_fetchStep:
  "fst (fetchStep cfg chain update (n, p) st) =
     (let m1 = SetPUID (fst st) (RegularUserName cfg n) chain p
      in if sint (lastPUIDOf m1 chain) < sint p
         then m1\<lparr>lastPUID := (lastPUID m1)(chain \<mapsto> p)\<rparr> else m1)"
  by (cases st) (simp add: fetchStep_def Let_def)

lemma puidOf_fetchStep:
  "puidOf (fst (fetchStep cfg chain update (n, p) st)) u c =
     (if u = RegularUserName cfg n \<and> c = chain then Some p else puidOf (fst st) u c)"
  by (simp add: fst_fetchStep Let_def puidOf_SetPUID)

lemma lastPUIDOf_fetchStep:
  "lastPUIDOf (fst (fetchStep cfg chain update (n, p) st)) chain =
     (if sint (lastPUIDOf (fst st) chain) < sint p then p else lastPUIDOf (fst st) chain)"
  by (simp add: fst_fetchStep Let_def) (simp add: lastPUIDOf_def)

lemma lastPUIDOf_fetchStep_mono:
  "sint (lastPUIDOf (fst st) chain) \<le> sint (lastPUIDOf (fst (fetchStep cfg chain update e st)) chain)"
  by (cases e) (simp add: lastPUIDOf_fetchStep)

lemma lastPUIDOf_fetchLoop_mono:
  "sint (lastPUIDOf (fst st) chain) \<le> sint (lastPUIDOf (fst (fetchLoop cfg chain update es st)) chain)"
proof (induction es arbitrary: st)
  case Nil
  then show ?case by simp
next
  case (Cons e es)
  have "sint (lastPUIDOf (fst st) chain) \<le>
        sint (lastPUIDOf (fst (fetchStep cfg chain update e st)) chain)"
    by (rule lastPUIDOf_fetchStep_mono)
  also have "\<dots> \<le> sint (lastPUIDOf (fst (fetchLoop cfg chain update es
                 (fetchStep cfg chain update e st))) chain)"
    by (rule Cons.IH)
  finally show ?case by simp
qed

lemma puidOf_fetchLoop:
  "puidOf (fst (fetchLoop cfg chain update es st)) u chain =
     (let ids = map snd (filter (\<lambda>(n, p). RegularUserName cfg n = u) es)
      in if ids = [] then puidOf (fst st) u chain else Some (last ids))"
proof (induction es arbitrary: st)
  case Nil
  then show ?case by simp
next
  case (Cons e es)
  obtain n p where e: "e = (n, p)" by (cases e)
  show ?case
    by (simp add: Cons.IH e puidOf_fetchStep Let_def)
qed

lemma puidOf_fetchLoop_other:
  "c \<noteq> chain \<Longrightarrow> puidOf (fst (fetchLoop cfg chain update es st)) u c = puidOf (fst st) u c"
proof (induction es arbitrary: st)
  case Nil
  then show ?case by simp
next
  case (Cons e es)
  obtain n p where e: "e = (n, p)" by (cases e)
  show ?case using Cons.prems by (simp add: Cons.IH e puidOf_fetchStep)
qed

lemma puidOf_FetchUserIDList:
  "puidOf (fst (snd (FetchUserIDList cfg chain update http (m, zk)))) u chain =
     (if appliedIDs cfg http u = [] then puidOf m u chain
      else Some (last (appliedIDs cfg http u)))"
proof (cases http)
  case GetFailed
  then show ?thesis by (simp add: FetchUserIDList_cases appliedIDs_def initCursor_simps)
next
  case ReadAllFailed
  then show ?thesis by (simp add: FetchUserIDList_cases appliedIDs_def initCursor_simps)
next
  case (GotBody body)
  show ?thesis
  proof (cases "unmarshalUserIDMapResponse body")
    case None
    then show ?thesis using GotBody
      by (simp add: FetchUserIDList_cases appliedIDs_def initCursor_simps split: option.splits)
  next
    case (Some r)
    then show ?thesis using GotBody
      by (simp add: FetchUserIDList_cases appliedIDs_def initCursor_simps puidOf_fetchLoop Let_def)
  qed
qed

lemma lastPUIDOf_FetchUserIDList:
  "sint (lastPUIDOf m chain) \<le>
   sint (lastPUIDOf (fst (snd (FetchUserIDList cfg chain update http (m, zk)))) chain)"
proof (cases http)
  case GetFailed
  then show ?thesis by (simp add: FetchUserIDList_cases initCursor_simps)
next
  case ReadAllFailed
  then show ?thesis by (simp add: FetchUserIDList_cases initCursor_simps)
next
  case (GotBody body)
  show ?thesis
  proof (cases "unmarshalUserIDMapResponse body")
    case None
    then show ?thesis using GotBody
      by (simp add: FetchUserIDList_cases initCursor_simps split: option.splits)
  next
    case (Some r)
    have "sint (lastPUIDOf (fst (initCursor m chain, zk)) chain) \<le>
          sint (lastPUIDOf (fst (fetchLoop cfg chain update (Data r) (initCursor m chain, zk))) chain)"
      by (rule lastPUIDOf_fetchLoop_mono)
    then show ?thesis using GotBody Some
      by (simp add: FetchUserIDList_cases initCursor_simps)
  qed
qed

lemma RegularUserName_alice: "RegularUserName caseSensitive ''alice'' = ''alice''"
  by (simp add: RegularUserName_alt caseSensitive_def stripPostfix_examples)

lemma appliedIDs_keyedBody:
  "inInt32 n \<Longrightarrow> appliedIDs caseSensitive (GotBody (keyedBody n)) ''alice'' = [word_of_int n]"
  by (simp add: appliedIDs_def unmarshal_keyedBody RegularUserName_alice)

lemma puidOf_after:
  "puidOf after7 ''alice'' ''btc'' = Some 7" "puidOf after10 ''alice'' ''btc'' = Some 10"
  by (simp_all add: after7_def after10_def puidOf_FetchUserIDList appliedIDs_keyedBody inInt32_def)

lemma FetchUserIDList_neither:
  "(fst (FetchUserIDList cfg chain update (GotBody body) (m, zk)) = Some (ErrParseResult body)) =
     (unmarshalUserIDMapResponse body = None \<and> unmarshalUserIDMapEmptyResponse body = None)"
  by (simp add: FetchUserIDList_cases split: option.splits)

lemma FetchUserIDList_empty_shape:
  assumes "unmarshalUserIDMapResponse body = None"
    and "unmarshalUserIDMapEmptyResponse body \<noteq> None"
  shows "FetchUserIDList cfg chain update (GotBody body) (m, zk) = (None, initCursor m chain, zk)"
  using assms by (auto simp: FetchUserIDList_cases split: option.splits)

lemma FetchUserIDList_keyed_shape:
  assumes "unmarshalUserIDMapResponse body = Some r"
  shows "FetchUserIDList cfg chain update (GotBody body) (m, zk) =
     (if ErrNo r \<noteq> 0 then (Some (ErrAPIReturned body), initCursor m chain, zk)
      else (None, fetchLoop cfg chain update (Data r) (initCursor m chain, zk)))"
  using assms by (simp add: FetchUserIDList_cases)

lemma keyIs_data_only:
  assumes "keyIs ''data'' key"
  shows "\<not> keyIs ''err_no'' key" "\<not> keyIs ''err_msg'' key"
proof -
  have d: "ToLower ''data'' \<noteq> ToLower ''err_no''" "ToLower ''data'' \<noteq> ToLower ''err_msg''"
    by code_simp+
  show "\<not> keyIs ''err_no'' key" "\<not> keyIs ''err_msg'' key"
    using assms d by (simp_all add: keyIs_def)
qed

lemma decodeMapFields_array:
  assumes "(key, JArr items) \<in> set members" and "keyIs ''data'' key"
  shows "decodeMapFields members r = None"
  using assms(1)
proof (induction members arbitrary: r)
  case Nil
  then show ?case by simp
next
  case (Cons m members)
  obtain k v where m: "m = (k, v)" by (cases m)
  show ?case
  proof (cases "m = (key, JArr items)")
    case True
    then show ?thesis using assms(2) keyIs_data_only [OF assms(2)] by simp
  next
    case False
    then have "(key, JArr items) \<in> set members" using Cons.prems by simp
    then have "\<And>r'. decodeMapFields members r' = None" by (rule Cons.IH)
    then show ?thesis by (simp add: m split: option.splits)
  qed
qed

lemma unmarshal_array_data:
  assumes "(key, JArr items) \<in> set members" and "keyIs ''data'' key"
  shows "unmarshalUserIDMapResponse (JSON (JObj members)) = None"
  using assms by (simp add: decodeMapFields_array)

section \<open>Claims about the user chain manager\<close>






text \<open>
  Claim C9. A name has a record in \<open>userChainMap\<close> only once a read from the store or a
  local assignment call has created it. For a name without a record \<open>WriteToZK\<close> returns
  the not-found error and the store exactly as it was, its record of calls included: no
  \<open>Exists\<close>, \<open>Set\<close> or \<open>Create\<close> was made. \<open>WriteToZK\<close> only reads the manager. In
  particular this holds after any sequence of local assignment calls on a new manager,
  none of which names the user.
\<close>

theorem WriteToZK_unknown_user:
  "(userChainMap m u = None \<longrightarrow> WriteToZK cfg m zk u = (Some (ErrUserNotExists u), zk)) \<and>
   (u \<notin> callName ` set calls \<longrightarrow>
      WriteToZK cfg (foldl applyCall NewUserChainManager calls) zk u =
        (Some (ErrUserNotExists u), zk))"
proof (intro conjI impI)
  assume "userChainMap m u = None"
  then show "WriteToZK cfg m zk u = (Some (ErrUserNotExists u), zk)"
    by (simp add: WriteToZK_def)
next
  assume "u \<notin> callName ` set calls"
  then have "userChainMap (foldl applyCall NewUserChainManager calls) u = None"
    by (simp add: foldl_applyCall_other NewUserChainManager_def)
  then show "WriteToZK cfg (foldl applyCall NewUserChainManager calls) zk u =
        (Some (ErrUserNotExists u), zk)"
    by (simp add: WriteToZK_def)
qed

text \<open>
  The user \<open>alice\<close>, after assignments to \<open>bob\<close> and \<open>carol\<close> only, and a store that
  has seen no call.
\<close>

theorem WriteToZK_unknown_user_witness:
  "userChainMap (SetPUID NewUserChainManager ''bob'' ''btc'' 42) ''alice'' = None \<and>
   WriteToZK caseSensitive (SetPUID NewUserChainManager ''bob'' ''btc'' 42) emptyStore ''alice'' =
     (Some (ErrUserNotExists ''alice''), emptyStore) \<and>
   zcalls emptyStore = [] \<and>
   ''alice'' \<notin> callName ` set [CallSetPUID ''bob'' ''btc'' 42, CallSetChain ''carol'' ''eth''] \<and>
   WriteToZK caseSensitive
     (foldl applyCall NewUserChainManager [CallSetPUID ''bob'' ''btc'' 42, CallSetChain ''carol'' ''eth''])
     emptyStore ''alice'' = (Some (ErrUserNotExists ''alice''), emptyStore)"
proof -
  have n: "userChainMap (SetPUID NewUserChainManager ''bob'' ''btc'' 42) ''alice'' = None"
    by (simp add: SetPUID_other NewUserChainManager_def)
  have c: "''alice'' \<notin> callName ` set [CallSetPUID ''bob'' ''btc'' 42, CallSetChain ''carol'' ''eth'']"
    by simp
  have z: "zcalls emptyStore = []" by (simp add: emptyStore_def)
  show ?thesis
    using WriteToZK_unknown_user [of "SetPUID NewUserChainManager ''bob'' ''btc'' 42" "''alice''"
        caseSensitive emptyStore "[CallSetPUID ''bob'' ''btc'' 42, CallSetChain ''carol'' ''eth'']"]
      n c z
    by simp
qed

text \<open>
  Claim C4, as the code has it. \<open>SetPUID\<close> overwrites: after a call of
  \<open>FetchUserIDList\<close> the id of a user under the chain is the last id the call applied to
  that user, and the id it had before if the call applied none. So the id does not
  decrease over a call provided every id the call applies to the user is at least the
  stored one. What never decreases is the cursor \<open>lastPUID[chain]\<close>, which only a
  strictly higher id raises.
\<close>

theorem PUID_last_applied_wins:
  "puidOf (fst (snd (FetchUserIDList cfg chain update http (m, zk)))) u chain =
     (if appliedIDs cfg http u = [] then puidOf m u chain
      else Some (last (appliedIDs cfg http u))) \<and>
   (puidOf m u chain = Some old \<longrightarrow>
    (\<forall>p \<in> set (appliedIDs cfg http u). sint old \<le> sint p) \<longrightarrow>
      (\<exists>new. puidOf (fst (snd (FetchUserIDList cfg chain update http (m, zk)))) u chain = Some new \<and>
         sint old \<le> sint new)) \<and>
   sint (lastPUIDOf m chain) \<le>
     sint (lastPUIDOf (fst (snd (FetchUserIDList cfg chain update http (m, zk)))) chain)"
proof (intro conjI impI)
  show "puidOf (fst (snd (FetchUserIDList cfg chain update http (m, zk)))) u chain =
     (if appliedIDs cfg http u = [] then puidOf m u chain
      else Some (last (appliedIDs cfg http u)))"
    by (rule puidOf_FetchUserIDList)
next
  assume o: "puidOf m u chain = Some old"
    and a: "\<forall>p \<in> set (appliedIDs cfg http u). sint old \<le> sint p"
  show "\<exists>new. puidOf (fst (snd (FetchUserIDList cfg chain update http (m, zk)))) u chain = Some new \<and>
         sint old \<le> sint new"
  proof (cases "appliedIDs cfg http u = []")
    case True
    then show ?thesis using o by (simp add: puidOf_FetchUserIDList)
  next
    case False
    then have "last (appliedIDs cfg http u) \<in> set (appliedIDs cfg http u)" by simp
    then show ?thesis using a False by (simp add: puidOf_FetchUserIDList)
  qed
next
  show "sint (lastPUIDOf m chain) \<le>
     sint (lastPUIDOf (fst (snd (FetchUserIDList cfg chain update http (m, zk)))) chain)"
    by (rule lastPUIDOf_FetchUserIDList)
qed

text \<open>
  The user \<open>alice\<close> has the id \<open>7\<close>; a call that applies \<open>10\<close> to that user leaves the
  id \<open>10\<close>.
\<close>

theorem PUID_last_applied_wins_witness:
  "puidOf after7 ''alice'' ''btc'' = Some 7 \<and>
   appliedIDs caseSensitive (GotBody (keyedBody 10)) ''alice'' = [10] \<and>
   sint (7 :: int32) \<le> sint (10 :: int32) \<and>
   puidOf (fst (snd (FetchUserIDList caseSensitive ''btc'' False (GotBody (keyedBody 10))
             (after7, emptyStore)))) ''alice'' ''btc'' = Some 10"
proof -
  have a: "appliedIDs caseSensitive (GotBody (keyedBody 10)) ''alice'' = [10]"
    by (simp add: appliedIDs_keyedBody inInt32_def)
  have s: "sint (7 :: int32) \<le> sint (10 :: int32)" by simp
  show ?thesis
    using PUID_last_applied_wins [of caseSensitive "''btc''" False "GotBody (keyedBody 10)"
        after7 emptyStore "''alice''" 7] a s puidOf_after(1)
    by simp
qed

text \<open>
  Claim C4 as stated fails. The user \<open>alice\<close> has the id \<open>10\<close> on \<open>btc\<close>; the next call
  for \<open>btc\<close> receives \<open>7\<close> for the same user and stores it.
\<close>

theorem PUID_decreases:
  "puidOf after10 ''alice'' ''btc'' = Some 10 \<and>
   puidOf (fst (snd (FetchUserIDList caseSensitive ''btc'' False (GotBody (keyedBody 7))
             (after10, emptyStore)))) ''alice'' ''btc'' = Some 7 \<and>
   sint (7 :: int32) < sint (10 :: int32)"
  by (simp add: puidOf_after puidOf_FetchUserIDList appliedIDs_keyedBody inInt32_def)

text \<open>
  Claim C7 fails on the code. The body \<open>{"err_no":1,"err_msg":"fail","data":[]}\<close> does
  not decode under the keyed shape, decodes under the empty-sequence shape with
  \<open>err_no = 1\<close>, and \<open>FetchUserIDList\<close> returns no error: the fallback branch never
  looks at \<open>ErrNo\<close>. The keyed branch of the same function does, and returns the error
  for a keyed body with the same \<open>err_no\<close>.
\<close>

theorem err_no_unchecked_in_empty_shape:
  "unmarshalUserIDMapResponse failedEmptyBody = None \<and>
   unmarshalUserIDMapEmptyResponse failedEmptyBody =
     Some \<lparr>EmptyErrNo = 1, EmptyErrMsg = ''fail'', EmptyData = []\<rparr> \<and>
   FetchUserIDList cfg chain update (GotBody failedEmptyBody) (m, zk) =
     (None, initCursor m chain, zk) \<and>
   FetchUserIDList cfg chain update (GotBody failedKeyedBody) (m, zk) =
     (Some (ErrAPIReturned failedKeyedBody), initCursor m chain, zk)"
proof -
  have a: "FetchUserIDList cfg chain update (GotBody failedEmptyBody) (m, zk) =
     (None, initCursor m chain, zk)"
    by (rule FetchUserIDList_empty_shape) (simp_all add: unmarshal_failedEmptyBody)
  have b: "FetchUserIDList cfg chain update (GotBody failedKeyedBody) (m, zk) =
     (Some (ErrAPIReturned failedKeyedBody), initCursor m chain, zk)"
    by (simp add: FetchUserIDList_keyed_shape [OF unmarshal_failedKeyedBody])
  show ?thesis using a b by (simp add: unmarshal_failedEmptyBody)
qed

text \<open>
  Claim C8. On a body that was read, \<open>FetchUserIDList\<close> reports a parse failure exactly
  when the body decodes under neither shape. A body that fails the keyed shape and
  decodes under the empty-sequence shape is accepted: no error, the records and the store
  untouched. A body that decodes under the keyed shape is handled by that shape alone,
  whatever the other decoder would say: the keyed shape is tried first. A body whose
  \<open>data\<close> member is an array never decodes under the keyed shape.
\<close>

theorem FetchUserIDList_two_shapes:
  "((fst (FetchUserIDList cfg chain update (GotBody body) (m, zk)) = Some (ErrParseResult body)) =
      (unmarshalUserIDMapResponse body = None \<and> unmarshalUserIDMapEmptyResponse body = None)) \<and>
   (unmarshalUserIDMapResponse body = None \<longrightarrow> unmarshalUserIDMapEmptyResponse body \<noteq> None \<longrightarrow>
      FetchUserIDList cfg chain update (GotBody body) (m, zk) = (None, initCursor m chain, zk) \<and>
      userChainMap (initCursor m chain) = userChainMap m) \<and>
   (\<forall>r. unmarshalUserIDMapResponse body = Some r \<longrightarrow>
      FetchUserIDList cfg chain update (GotBody body) (m, zk) =
        (if ErrNo r \<noteq> 0 then (Some (ErrAPIReturned body), initCursor m chain, zk)
         else (None, fetchLoop cfg chain update (Data r) (initCursor m chain, zk)))) \<and>
   (\<forall>members key items. body = JSON (JObj members) \<longrightarrow> (key, JArr items) \<in> set members \<longrightarrow>
      keyIs ''data'' key \<longrightarrow> unmarshalUserIDMapResponse body = None)"
proof (intro conjI impI allI)
  fix members key items
  assume b: "body = JSON (JObj members)" and a: "(key, JArr items) \<in> set members"
    and k: "keyIs ''data'' key"
  show "unmarshalUserIDMapResponse body = None"
    unfolding b by (rule unmarshal_array_data [OF a k])
qed (rule FetchUserIDList_neither FetchUserIDList_empty_shape FetchUserIDList_keyed_shape
       initCursor_simps; assumption?)+

text \<open>
  The spec's body \<open>{"err_no":0,"err_msg":"","data":[]}\<close> is accepted with nothing
  written, and a keyed body with \<open>err_no = 1\<close> is answered by the keyed branch.
\<close>

theorem FetchUserIDList_two_shapes_witness:
  "emptySequenceBody =
     JSON (JObj [(''err_no'', JInt 0), (''err_msg'', JStr ''''), (''data'', JArr [])]) \<and>
   keyIs ''data'' ''data'' \<and>
   unmarshalUserIDMapResponse emptySequenceBody = None \<and>
   unmarshalUserIDMapEmptyResponse emptySequenceBody \<noteq> None \<and>
   FetchUserIDList caseSensitive ''btc'' True (GotBody emptySequenceBody)
       (SetPUID NewUserChainManager ''bob'' ''btc'' 42, emptyStore) =
     (None, initCursor (SetPUID NewUserChainManager ''bob'' ''btc'' 42) ''btc'', emptyStore) \<and>
   userChainMap (initCursor (SetPUID NewUserChainManager ''bob'' ''btc'' 42) ''btc'') =
     userChainMap (SetPUID NewUserChainManager ''bob'' ''btc'' 42) \<and>
   zcalls emptyStore = [] \<and>
   unmarshalUserIDMapResponse failedKeyedBody =
     Some \<lparr>ErrNo = 1, ErrMsg = ''fail'', Data = [(''alice'', 10)]\<rparr> \<and>
   FetchUserIDList caseSensitive ''btc'' True (GotBody failedKeyedBody)
       (SetPUID NewUserChainManager ''bob'' ''btc'' 42, emptyStore) =
     (Some (ErrAPIReturned failedKeyedBody),
      initCursor (SetPUID NewUserChainManager ''bob'' ''btc'' 42) ''btc'', emptyStore)"
proof -
  have z: "zcalls emptyStore = []" by (simp add: emptyStore_def)
  have k: "ErrNo \<lparr>ErrNo = 1, ErrMsg = ''fail'', Data = [(''alice'', 10)]\<rparr> \<noteq> 0" by simp
  show ?thesis
    using FetchUserIDList_two_shapes [of caseSensitive "''btc''" True emptySequenceBody
        "SetPUID NewUserChainManager ''bob'' ''btc'' 42" emptyStore]
      FetchUserIDList_two_shapes [of caseSensitive "''btc''" True failedKeyedBody
        "SetPUID NewUserChainManager ''bob'' ''btc'' 42" emptyStore]
      unmarshal_emptySequenceBody unmarshal_failedKeyedBody z k keyIs_tags(6)
    by (simp add: emptySequenceBody_def [symmetric])
qed

end
